theory Spec2Isabelle
  imports Main "HOL-Library.Word"
begin

unbundle bit_operations_syntax

section \<open>Shared data model\<close>

text \<open>
  Go's \<open>uint64\<close> is a 64-bit word and a byte an 8-bit word. Lengths of slices
  (\<open>len\<close>, a Go \<open>int\<close>) are natural numbers: a slice never has \<open>2^63\<close> elements.
  A \<open>time.Time\<close> is the signed number of nanoseconds since the zero instant, so
  \<open>IsZero\<close> is \<open>t = 0\<close> and \<open>a.Before(b)\<close> is \<open>a < b\<close>.
\<close>

type_synonym u64 = "64 word"
type_synonym byte = "8 word"
type_synonym bytes = "byte list"
type_synonym time = int

datatype MemberType =
  VoterMember | StagingMember | LearnerMember | LocalMember | LocalLearnerMember | RemovedMember

text \<open>\<open>raftpb.Member\<close>, the serialisable description of a member.\<close>

record RawMember =
  raw_ID :: u64
  raw_Address :: string
  raw_Type :: MemberType

text \<open>
  The \<open>Member\<close> interface as the cluster and the daemon observe it: the raw fields plus
  the liveness flags of the peer.
\<close>

record Member =
  ID :: u64
  Address :: string
  Type :: MemberType
  IsActive :: bool
  ActiveSince :: time

definition Raw :: "Member \<Rightarrow> RawMember" where
  "Raw m = \<lparr>raw_ID = ID m, raw_Address = Address m, raw_Type = Type m\<rparr>"

datatype ConfChangeType =
  ConfChangeAddNode | ConfChangeRemoveNode | ConfChangeUpdateNode | ConfChangeAddLearnerNode

text \<open>
  Every error value the modelled code returns. \<open>ErrExternal n\<close> stands for an error
  produced by a collaborator (file system, consensus primitive, state machine, codec);
  \<open>ErrPanic\<close> for a run-time panic.
\<close>

datatype error =
    ErrNotJoined
  | ErrUnknownMember u64
  | ErrAlreadyRemoved u64
  | ErrRmLeader u64
  | ErrNoLeader
  | ErrNotLeader
  | ErrQuorumLost
  | ErrNoLongestActive
  | ErrStopped
  | ErrOverloaded u64
  | ErrCanceled
  | ErrSnapshotFormat
  | ErrCRCMismatch
  | ErrSnapOutOfDate u64 u64
  | ErrNotExist
  | ErrEOF
  | ErrNegativeOffset
  | ErrExternal nat
  | ErrPanic

section \<open>Cluster facade (cluster.go)\<close>

text \<open>
  The facade holds a pool and a daemon. \<open>pool_Members\<close> is the listing
  \<open>c.pool.Members()\<close> in the order the pool returns it; \<open>status_ID\<close> and
  \<open>status_Lead\<close> are the fields of the \<open>raft.Status\<close> that \<open>c.daemon.Status()\<close>
  returns (the zero status when the daemon is stopped: \<open>Whoami\<close> and \<open>Leader\<close> drop
  the error). \<open>proposed\<close> logs every call of \<open>c.daemon.ProposeConfChange\<close>.
\<close>

record cluster =
  pool_Members :: "Member list"
  status_ID :: u64
  status_Lead :: u64
  disableForwarding :: bool
  proposed :: "(RawMember \<times> ConfChangeType) list"

text \<open>\<open>c.pool.Get(id)\<close>: the member of the pool with that id, if there is one.\<close>

definition GetMemebr :: "cluster \<Rightarrow> u64 \<Rightarrow> Member option" where
  "GetMemebr c mid = find (\<lambda>m. ID m = mid) (pool_Members c)"

text \<open>The loop of \<open>cluster.members\<close>: append every member that passes \<open>cond\<close>.\<close>

fun members_loop :: "(Member \<Rightarrow> bool) \<Rightarrow> Member list \<Rightarrow> Member list \<Rightarrow> Member list" where
  "members_loop cond [] mems = mems"
| "members_loop cond (m # ms) mems =
     (if cond m then members_loop cond ms (mems @ [m]) else members_loop cond ms mems)"

definition members :: "cluster \<Rightarrow> (Member \<Rightarrow> bool) \<Rightarrow> Member list" where
  "members c cond = members_loop cond (pool_Members c) []"

definition Members :: "cluster \<Rightarrow> Member list" where
  "Members c = members c (\<lambda>m. Type m \<noteq> RemovedMember)"

definition RemovedMembers :: "cluster \<Rightarrow> Member list" where
  "RemovedMembers c = members c (\<lambda>m. Type m = RemovedMember)"

text \<open>
  \<open>LongestActive\<close>: the loop state is the pair \<open>(longest, longestTime)\<close>; \<open>longest\<close>
  starts as \<open>nil\<close> and \<open>longestTime\<close> as the zero time. The branch taken for the
  first eligible member assigns \<open>longest\<close> only.
\<close>

fun LongestActive_loop :: "Member list \<Rightarrow> Member option \<Rightarrow> time \<Rightarrow> Member option" where
  "LongestActive_loop [] longest longestTime = longest"
| "LongestActive_loop (m # ms) longest longestTime =
     (let since = ActiveSince m in
      if since = 0 \<or> Type m = LocalMember then LongestActive_loop ms longest longestTime
      else if longest = None then LongestActive_loop ms (Some m) longestTime
      else if since < longestTime then LongestActive_loop ms (Some m) since
      else LongestActive_loop ms longest longestTime)"

definition LongestActive :: "cluster \<Rightarrow> error + Member" where
  "LongestActive c =
     (case LongestActive_loop (Members c) None 0 of
        None \<Rightarrow> Inl ErrNoLongestActive
      | Some m \<Rightarrow> Inr m)"

definition IsAvailable :: "cluster \<Rightarrow> bool" where
  "IsAvailable c =
     (let q = length (Members c) div 2 + 1;
          n = length (members c IsActive)
      in n \<ge> q)"

text \<open>
  \<open>IsMemberRemoved\<close> calls \<open>Type()\<close> on the member \<open>GetMemebr\<close> returned without
  looking at the flag: on an unknown id that is a call on a nil interface, a panic.
\<close>

definition IsMemberRemoved :: "cluster \<Rightarrow> u64 \<Rightarrow> error + bool" where
  "IsMemberRemoved c mid =
     (case GetMemebr c mid of
        None \<Rightarrow> Inl ErrPanic
      | Some m \<Rightarrow> Inr (Type m = RemovedMember))"

definition IsMember :: "cluster \<Rightarrow> u64 \<Rightarrow> bool" where
  "IsMember c mid = (GetMemebr c mid \<noteq> None)"

definition Whoami :: "cluster \<Rightarrow> u64" where
  "Whoami c = status_ID c"

definition Leader :: "cluster \<Rightarrow> u64" where
  "Leader c = status_Lead c"

text \<open>\<open>precondition\<close> runs the checks in order and returns the first error.\<close>

fun precondition :: "cluster \<Rightarrow> (cluster \<Rightarrow> error option) list \<Rightarrow> error option" where
  "precondition c [] = None"
| "precondition c (fn # fns) =
     (case fn c of Some err \<Rightarrow> Some err | None \<Rightarrow> precondition c fns)"

definition joined :: "cluster \<Rightarrow> error option" where
  "joined c = (if Whoami c = 0 then Some ErrNotJoined else None)"

definition available :: "cluster \<Rightarrow> error option" where
  "available c = (if \<not> IsAvailable c then Some ErrQuorumLost else None)"

definition notMember :: "u64 \<Rightarrow> cluster \<Rightarrow> error option" where
  "notMember mid c = (if \<not> IsMember c mid then Some (ErrUnknownMember mid) else None)"

definition memberRemoved :: "u64 \<Rightarrow> cluster \<Rightarrow> error option" where
  "memberRemoved mid c =
     (case IsMemberRemoved c mid of
        Inl e \<Rightarrow> Some e
      | Inr b \<Rightarrow> if b then Some (ErrAlreadyRemoved mid) else None)"

definition rmLeader :: "u64 \<Rightarrow> cluster \<Rightarrow> error option" where
  "rmLeader mid c = (if mid = Leader c then Some (ErrRmLeader mid) else None)"

definition noLeader :: "cluster \<Rightarrow> error option" where
  "noLeader c = (if Leader c = 0 then Some ErrNoLeader else None)"

definition disableForwarding_check :: "cluster \<Rightarrow> error option" where
  "disableForwarding_check c =
     (if Leader c \<noteq> Whoami c \<and> disableForwarding c then Some ErrNotLeader else None)"

text \<open>
  The call \<open>c.daemon.ProposeConfChange(ctx, raw, t)\<close>: the facade hands the change to
  the daemon and returns what the daemon answers (\<open>res\<close>, decided by the engine).
\<close>

definition daemon_ProposeConfChange ::
  "cluster \<Rightarrow> RawMember \<Rightarrow> ConfChangeType \<Rightarrow> error option \<Rightarrow> error option \<times> cluster" where
  "daemon_ProposeConfChange c raw t res = (res, c\<lparr>proposed := proposed c @ [(raw, t)]\<rparr>)"

definition RemoveMember_checks :: "u64 \<Rightarrow> (cluster \<Rightarrow> error option) list" where
  "RemoveMember_checks mid =
     [joined, notMember mid, memberRemoved mid, rmLeader mid, noLeader,
      disableForwarding_check, available]"

definition RemoveMember :: "cluster \<Rightarrow> u64 \<Rightarrow> error option \<Rightarrow> error option \<times> cluster" where
  "RemoveMember c mid res =
     (case precondition c (RemoveMember_checks mid) of
        Some err \<Rightarrow> (Some err, c)
      | None \<Rightarrow>
          (case GetMemebr c mid of
             None \<Rightarrow> (Some ErrPanic, c)
           | Some mem \<Rightarrow>
               daemon_ProposeConfChange c ((Raw mem)\<lparr>raw_Type := RemovedMember\<rparr>)
                 ConfChangeRemoveNode res))"


section \<open>Remote peer (internal/membership/remote.go)\<close>

datatype MessageType = MsgSnap | MsgApp | MsgHeartbeat | MsgProp | MsgVote

record Message =
  msg_Type :: MessageType
  msg_To :: u64
  msg_Index :: u64

datatype SnapshotStatus = SnapshotFinish | SnapshotFailure

text \<open>The calls a peer makes on its \<open>reporter\<close> (\<open>r.r\<close>).\<close>

datatype report_call = ReportUnreachable u64 | ReportSnapshot u64 SnapshotStatus

text \<open>
  The part of \<open>remote\<close> that \<open>Send\<close> touches. \<open>ctx_Err\<close> is \<open>r.ctx.Err()\<close>: nil
  until the context is cancelled. \<open>msgc\<close> is the content of the buffered channel, oldest
  first, and \<open>msgc_cap\<close> its capacity. \<open>reported\<close> logs the calls on \<open>r.r\<close>.
\<close>

record remote =
  r_id :: u64
  ctx_Err :: "error option"
  msgc :: "Message list"
  msgc_cap :: nat
  reported :: "report_call list"

definition report :: "remote \<Rightarrow> Message \<Rightarrow> error option \<Rightarrow> remote" where
  "report r msg err =
     (if err = None \<and> msg_Type msg = MsgSnap then
        r\<lparr>reported := reported r @ [ReportSnapshot (r_id r) SnapshotFinish]\<rparr>
      else if err \<noteq> None \<and> msg_Type msg = MsgSnap then
        r\<lparr>reported := reported r @ [ReportSnapshot (r_id r) SnapshotFailure]\<rparr>
      else if err \<noteq> None then
        r\<lparr>reported := reported r @ [ReportUnreachable (r_id r)]\<rparr>
      else r)"

text \<open>
  Go's \<open>select\<close>: when some communication can proceed, one of the ready cases runs (Go
  picks among several at random: \<open>pick\<close> is that choice); when none can, the
  \<open>default\<close> case runs if there is one, and otherwise the statement blocks (\<open>None\<close>).
\<close>

datatype select_case = Case_send | Case_done | Case_default

definition select_stmt :: "nat \<Rightarrow> select_case list \<Rightarrow> select_case option \<Rightarrow> select_case option" where
  "select_stmt pick ready dflt =
     (if ready \<noteq> [] then Some (ready ! (pick mod length ready)) else dflt)"

text \<open>
  The cases of the \<open>select\<close> in \<open>Send\<close> that can proceed: the send when the buffer has
  room, the receive from \<open>ctx.Done()\<close> when the context is cancelled.
\<close>

definition Send_ready :: "remote \<Rightarrow> select_case list" where
  "Send_ready r =
     (if length (msgc r) < msgc_cap r then [Case_send] else []) @
     (if ctx_Err r \<noteq> None then [Case_done] else [])"

text \<open>
  The body of \<open>Send\<close> up to its return: the error it returns and the peer afterwards;
  \<open>None\<close> when the call blocks.
\<close>

definition Send_body :: "nat \<Rightarrow> remote \<Rightarrow> Message \<Rightarrow> (error option \<times> remote) option" where
  "Send_body pick r msg =
     (case ctx_Err r of
        Some err \<Rightarrow> Some (Some err, r)
      | None \<Rightarrow>
          (case select_stmt pick (Send_ready r) (Some Case_default) of
             None \<Rightarrow> None
           | Some Case_send \<Rightarrow> Some (None, r\<lparr>msgc := msgc r @ [msg]\<rparr>)
           | Some Case_done \<Rightarrow> Some (ctx_Err r, r)
           | Some Case_default \<Rightarrow> Some (Some (ErrOverloaded (r_id r)), r)))"

text \<open>\<open>Send\<close> with its deferred function: a non-nil error is reported before returning.\<close>

definition Send :: "nat \<Rightarrow> remote \<Rightarrow> Message \<Rightarrow> (error option \<times> remote) option" where
  "Send pick r msg =
     (case Send_body pick r msg of
        None \<Rightarrow> None
      | Some (err, r') \<Rightarrow>
          if err \<noteq> None then Some (err, report r' msg err) else Some (err, r'))"

section \<open>Daemon (internal/daemon)\<close>

text \<open>\<open>etcdraftpb.Snapshot\<close>: the data and the metadata (index, term, conf state).\<close>

record Snapshot =
  snap_Data :: bytes
  snap_Index :: u64
  snap_Term :: u64
  snap_ConfState :: "u64 list"

definition empty_Snapshot :: Snapshot where
  "empty_Snapshot = \<lparr>snap_Data = [], snap_Index = 0, snap_Term = 0, snap_ConfState = []\<rparr>"

definition IsEmptySnap :: "Snapshot \<Rightarrow> bool" where
  "IsEmptySnap sp = (snap_Index sp = 0)"

record SnapshotFile =
  sf_Snap :: Snapshot
  sf_Pool :: "RawMember list"
  sf_Data :: bytes

text \<open>
  Every call the daemon makes on a collaborator (state machine, in-memory log cache,
  storage, pool) is logged, in order, in \<open>calls\<close>.
\<close>

datatype call =
    FSM_Snapshot
  | FSM_Restore bytes
  | Cache_Snapshot
  | Cache_CreateSnapshot u64 "u64 list"
  | Cache_Compact u64
  | Cache_ApplySnapshot Snapshot
  | Snapshotter_Write SnapshotFile
  | Snapshotter_Read Snapshot
  | Storage_SaveSnapshot Snapshot
  | Pool_Snapshot
  | Pool_Restore "RawMember list"

record daemon =
  appliedIndex :: u64
  snapIndex :: u64
  cState :: "u64 list"
  calls :: "call list"

text \<open>
  What each collaborator answers when the daemon calls it, and the configured
  \<open>SnapInterval\<close>. A Go pair \<open>(value, error)\<close> is kept as a pair where the code
  returns the value next to a non-nil error.
\<close>

record collaborators =
  cache_Snapshot :: "Snapshot \<times> error option"
  fsm_Snapshot :: "error + bytes"
  cache_CreateSnapshot :: "Snapshot \<times> error option"
  pool_Snapshot :: "RawMember list"
  snapshotter_Write :: "error option"
  snapshotter_Read :: "error + SnapshotFile"
  storage_SaveSnapshot :: "error option"
  cache_Compact :: "error option"
  cache_ApplySnapshot :: "error option"
  fsm_Restore :: "error option"
  SnapInterval :: u64

definition New :: daemon where
  "New = \<lparr>appliedIndex = 0, snapIndex = 0, cState = [], calls = []\<rparr>"

definition called :: "daemon \<Rightarrow> call \<Rightarrow> daemon" where
  "called d c = d\<lparr>calls := calls d @ [c]\<rparr>"

definition CreateSnapshot :: "collaborators \<Rightarrow> daemon \<Rightarrow> (Snapshot \<times> error option) \<times> daemon" where
  "CreateSnapshot env d =
     (let applied = appliedIndex d; snapi = snapIndex d in
      if applied = snapi then (cache_Snapshot env, called d Cache_Snapshot)
      else
        let d1 = called d FSM_Snapshot in
        case fsm_Snapshot env of
          Inl err \<Rightarrow> ((empty_Snapshot, Some err), d1)
        | Inr r \<Rightarrow>
            let d2 = called d1 (Cache_CreateSnapshot applied (cState d));
                snap = fst (cache_CreateSnapshot env) in
            case snd (cache_CreateSnapshot env) of
              Some err \<Rightarrow> ((snap, Some err), d2)
            | None \<Rightarrow>
                let sf = \<lparr>sf_Snap = snap, sf_Pool = pool_Snapshot env, sf_Data = r\<rparr>;
                    d3 = called (called d2 Pool_Snapshot) (Snapshotter_Write sf) in
                case snapshotter_Write env of
                  Some err \<Rightarrow> ((snap, Some err), d3)
                | None \<Rightarrow>
                    let d4 = called d3 (Storage_SaveSnapshot snap) in
                    case storage_SaveSnapshot env of
                      Some err \<Rightarrow> ((snap, Some err), d4)
                    | None \<Rightarrow>
                        let compactIndex =
                              (if applied > SnapInterval env then applied - SnapInterval env else 1);
                            d5 = called d4 (Cache_Compact compactIndex) in
                        case cache_Compact env of
                          Some err \<Rightarrow> ((snap, Some err), d5)
                        | None \<Rightarrow> ((snap, None), d5\<lparr>snapIndex := applied\<rparr>))"

definition publishSnapshotFile :: "collaborators \<Rightarrow> SnapshotFile \<Rightarrow> daemon \<Rightarrow> error option \<times> daemon" where
  "publishSnapshotFile env sf d =
     (let snap = sf_Snap sf;
          d1 = called d (Cache_ApplySnapshot (sf_Snap sf)) in
      case cache_ApplySnapshot env of
        Some err \<Rightarrow> (Some err, d1)
      | None \<Rightarrow>
          let d2 = called (called d1 (Pool_Restore (sf_Pool sf))) (FSM_Restore (sf_Data sf)) in
          case fsm_Restore env of
            Some err \<Rightarrow> (Some err, d2)
          | None \<Rightarrow>
              (None, d2\<lparr>cState := snap_ConfState snap,
                        snapIndex := snap_Index snap,
                        appliedIndex := snap_Index snap\<rparr>))"

definition publishSnapshot :: "collaborators \<Rightarrow> Snapshot \<Rightarrow> daemon \<Rightarrow> error option \<times> daemon" where
  "publishSnapshot env snap d =
     (if IsEmptySnap snap then (None, d)
      else if snap_Index snap \<le> appliedIndex d then
        (Some (ErrSnapOutOfDate (snap_Index snap) (appliedIndex d)), d)
      else
        let d1 = called d (Storage_SaveSnapshot snap) in
        case storage_SaveSnapshot env of
          Some err \<Rightarrow> (Some err, d1)
        | None \<Rightarrow>
            let d2 = called d1 (Snapshotter_Read snap) in
            case snapshotter_Read env of
              Inl err \<Rightarrow> (Some err, d2)
            | Inr sf \<Rightarrow> publishSnapshotFile env sf d2)"

text \<open>
  \<open>appliedIndex\<close> and \<open>snapIndex\<close> are atomics: the snapshot task and \<open>CreateSnapshot\<close>
  read them while the event loop runs. \<open>publishSnapshotFile_states\<close> is
  \<open>publishSnapshotFile\<close> statement by statement: the error it returns and the state of
  the daemon after each statement that changes it, in order, the last one being the
  state at return.
\<close>

definition publishSnapshotFile_states ::
  "collaborators \<Rightarrow> SnapshotFile \<Rightarrow> daemon \<Rightarrow> error option \<times> daemon list" where
  "publishSnapshotFile_states env sf d =
     (let snap = sf_Snap sf;
          d1 = called d (Cache_ApplySnapshot (sf_Snap sf)) in
      case cache_ApplySnapshot env of
        Some err \<Rightarrow> (Some err, [d1])
      | None \<Rightarrow>
          let d2 = called d1 (Pool_Restore (sf_Pool sf));
              d3 = called d2 (FSM_Restore (sf_Data sf)) in
          case fsm_Restore env of
            Some err \<Rightarrow> (Some err, [d1, d2, d3])
          | None \<Rightarrow>
              let d4 = d3\<lparr>cState := snap_ConfState snap\<rparr>;
                  d5 = d4\<lparr>snapIndex := snap_Index snap\<rparr>;
                  d6 = d5\<lparr>appliedIndex := snap_Index snap\<rparr>
              in (None, [d1, d2, d3, d4, d5, d6]))"

text \<open>\<open>publishSnapshot\<close> in the same way.\<close>

definition publishSnapshot_states ::
  "collaborators \<Rightarrow> Snapshot \<Rightarrow> daemon \<Rightarrow> error option \<times> daemon list" where
  "publishSnapshot_states env snap d =
     (if IsEmptySnap snap then (None, [])
      else if snap_Index snap \<le> appliedIndex d then
        (Some (ErrSnapOutOfDate (snap_Index snap) (appliedIndex d)), [])
      else
        let d1 = called d (Storage_SaveSnapshot snap) in
        case storage_SaveSnapshot env of
          Some err \<Rightarrow> (Some err, [d1])
        | None \<Rightarrow>
            let d2 = called d1 (Snapshotter_Read snap) in
            case snapshotter_Read env of
              Inl err \<Rightarrow> (Some err, [d1, d2])
            | Inr sf \<Rightarrow>
                (fst (publishSnapshotFile_states env sf d2),
                 d1 # d2 # snd (publishSnapshotFile_states env sf d2)))"

text \<open>
  One iteration of the loop of \<open>snapshots\<close>, the snapshot task, run at the state \<open>d\<close>:
  the difference of the two unsigned counters wraps around when \<open>snapIndex\<close> is the
  larger one.
\<close>

definition snapshots_iteration :: "collaborators \<Rightarrow> daemon \<Rightarrow> daemon" where
  "snapshots_iteration env d =
     (if appliedIndex d - snapIndex d \<le> SnapInterval env then d
      else snd (CreateSnapshot env d))"

subsection \<open>The promotion task\<close>







section \<open>Snapshot files (internal/storage/disk/snap_codec.go)\<close>

subsection \<open>\<open>hash/crc64\<close> with the ECMA polynomial and \<open>encoding/binary\<close>\<close>

definition ECMA :: u64 where
  "ECMA = 0xC96C5795D7870F42"

text \<open>One entry of the table \<open>MakeTable\<close> builds: eight shift-and-xor steps.\<close>

definition crc_shift :: "u64 \<Rightarrow> u64" where
  "crc_shift crc = (if crc AND 1 = 1 then drop_bit 1 crc XOR ECMA else drop_bit 1 crc)"

definition crcTable :: "byte \<Rightarrow> u64" where
  "crcTable i = (crc_shift ^^ 8) (ucast i)"

text \<open>\<open>crc64.Update\<close>, byte by byte.\<close>

fun crc_bytes :: "u64 \<Rightarrow> bytes \<Rightarrow> u64" where
  "crc_bytes crc [] = crc"
| "crc_bytes crc (v # p) = crc_bytes (crcTable (ucast crc XOR v) XOR drop_bit 8 crc) p"

definition crc64_Update :: "u64 \<Rightarrow> bytes \<Rightarrow> u64" where
  "crc64_Update crc p = NOT (crc_bytes (NOT crc) p)"

text \<open>\<open>binary.BigEndian\<close>.\<close>

definition PutUint64 :: "u64 \<Rightarrow> bytes" where
  "PutUint64 v =
     [ucast (drop_bit 56 v), ucast (drop_bit 48 v), ucast (drop_bit 40 v), ucast (drop_bit 32 v),
      ucast (drop_bit 24 v), ucast (drop_bit 16 v), ucast (drop_bit 8 v), ucast v]"

fun Uint64_acc :: "u64 \<Rightarrow> bytes \<Rightarrow> u64" where
  "Uint64_acc acc [] = acc"
| "Uint64_acc acc (b # bs) = Uint64_acc (push_bit 8 acc OR ucast b) bs"

definition Uint64 :: "bytes \<Rightarrow> u64" where
  "Uint64 b = Uint64_acc 0 (take 8 b)"

text \<open>\<open>crc.Sum(nil)\<close> of a hash that was fed \<open>p\<close> since its creation.\<close>

definition crc_Sum :: "bytes \<Rightarrow> bytes" where
  "crc_Sum p = PutUint64 (crc64_Update 0 p)"


subsection \<open>Files, readers and the trailer\<close>

text \<open>
  The file system maps a path to the content of the file there. An \<open>io.Reader\<close> handed
  to the code yields \<open>rd_bytes\<close> and then ends: with \<open>io.EOF\<close> when \<open>rd_err\<close> is nil,
  with that error otherwise.
\<close>

type_synonym fs = "string \<Rightarrow> bytes option"

record reader =
  rd_bytes :: bytes
  rd_err :: "error option"

text \<open>\<open>storage.Snapshot\<close>, the argument of \<open>encodeSnapshot\<close>.\<close>

record storage_Snapshot =
  ss_Raw :: Snapshot
  ss_Members :: "RawMember list"
  ss_Data :: reader

text \<open>\<open>raftpb.SnapshotTrailer\<close>; the version tag \<open>V0\<close> is 0.\<close>

record SnapshotTrailer =
  tr_CRC :: bytes
  tr_Version :: nat
  tr_Members :: "RawMember list"
  tr_Snapshot :: Snapshot

definition V0 :: nat where
  "V0 = 0"

text \<open>
  The generated protobuf methods \<open>trailer.Marshal\<close> and \<open>trailer.Unmarshal\<close> are not
  among the sources: the codec is a parameter of the model.
\<close>

record codec =
  Marshal :: "SnapshotTrailer \<Rightarrow> error + bytes"
  Unmarshal :: "bytes \<Rightarrow> error + SnapshotTrailer"

text \<open>
  What the operating system answers to \<open>encodeSnapshot\<close>: an error (or nil) for each call
  that can fail, and, for a failed call, how many of the bytes handed to the buffered
  writer so far had reached the file.
\<close>

record encode_faults =
  ef_Create :: "error option"
  ef_Copy :: "error option"
  ef_WriteTrailer :: "error option"
  ef_WriteSize :: "error option"
  ef_Flush :: "error option"
  ef_Fsync :: "error option"
  ef_persisted :: nat

definition encodeSnapshot ::
  "codec \<Rightarrow> encode_faults \<Rightarrow> string \<Rightarrow> storage_Snapshot \<Rightarrow> fs \<Rightarrow> error option \<times> fs" where
  "encodeSnapshot cd flt path s fs =
     (case ef_Create flt of
        Some err \<Rightarrow> (Some err, fs)
      | None \<Rightarrow>
          let partial = (\<lambda>written. fs(path := Some (take (ef_persisted flt) written)));
              payload = rd_bytes (ss_Data s) in
          case (case rd_err (ss_Data s) of Some err \<Rightarrow> Some err | None \<Rightarrow> ef_Copy flt) of
            Some err \<Rightarrow> (Some err, partial payload)
          | None \<Rightarrow>
              let trailer = \<lparr>tr_CRC = crc_Sum payload, tr_Version = V0,
                             tr_Members = ss_Members s, tr_Snapshot = ss_Raw s\<rparr> in
              case Marshal cd trailer of
                Inl err \<Rightarrow> (Some err, partial payload)
              | Inr buf \<Rightarrow>
                  (case ef_WriteTrailer flt of
                     Some err \<Rightarrow> (Some err, partial (payload @ buf))
                   | None \<Rightarrow>
                       let tsize = (of_nat (length buf) :: u64);
                           bsize = PutUint64 tsize in
                       case ef_WriteSize flt of
                         Some err \<Rightarrow> (Some err, partial (payload @ buf @ bsize))
                       | None \<Rightarrow>
                           (case ef_Flush flt of
                              Some err \<Rightarrow> (Some err, partial (payload @ buf @ bsize))
                            | None \<Rightarrow>
                                (ef_Fsync flt, fs(path := Some (payload @ buf @ bsize))))))"

text \<open>
  \<open>f.ReadAt(b, off)\<close> with \<open>len(b) = n\<close>: the bytes read and the error. A negative
  offset is an error; fewer than \<open>n\<close> bytes before the end of the file is \<open>io.EOF\<close>.
\<close>

definition ReadAt :: "error option \<Rightarrow> bytes \<Rightarrow> nat \<Rightarrow> int \<Rightarrow> bytes \<times> error option" where
  "ReadAt flt content n off =
     (case flt of
        Some err \<Rightarrow> ([], Some err)
      | None \<Rightarrow>
          if off < 0 then ([], Some ErrNegativeOffset)
          else
            let got = take n (drop (nat off) content) in
            (got, if length got < n then Some ErrEOF else None))"

text \<open>
  \<open>io.LimitedReader\<close> over the file read from offset 0: \<open>lr_R\<close> is what the underlying
  reader yields and \<open>lr_N\<close> the limit. \<open>LimitedReader_ReadAll\<close> is everything the
  reader yields before \<open>io.EOF\<close>.
\<close>

record LimitedReader =
  lr_R :: bytes
  lr_N :: int

definition LimitedReader_ReadAll :: "LimitedReader \<Rightarrow> bytes" where
  "LimitedReader_ReadAll lr = take (nat (lr_N lr)) (lr_R lr)"

text \<open>The handle \<open>decodeSnapshot\<close> returns (\<open>storage.Snapshot\<close> with an open reader).\<close>

record Snapshot_handle =
  h_Raw :: Snapshot
  h_Members :: "RawMember list"
  h_Data :: LimitedReader

record decode_faults =
  df_Open :: "error option"
  df_Stat :: "error option"
  df_ReadAt_size :: "error option"
  df_ReadAt_trailer :: "error option"
  df_Copy :: "error option"

text \<open>
  \<open>make([]byte, size)\<close> panics when \<open>size\<close> exceeds what the runtime can allocate
  (\<open>maxAlloc\<close>, \<open>2^48\<close> bytes on a 64-bit platform).
\<close>

definition maxAlloc :: nat where
  "maxAlloc = 2 ^ 48"

definition decodeSnapshot ::
  "codec \<Rightarrow> decode_faults \<Rightarrow> string \<Rightarrow> fs \<Rightarrow> error + Snapshot_handle" where
  "decodeSnapshot cd flt path fs =
     (case fs path of
        None \<Rightarrow> Inl ErrNotExist
      | Some content \<Rightarrow>
          (case df_Open flt of
             Some err \<Rightarrow> Inl err
           | None \<Rightarrow>
               (case df_Stat flt of
                  Some err \<Rightarrow> Inl err
                | None \<Rightarrow>
                    let stat_Size = int (length content);
                        r1 = ReadAt (df_ReadAt_size flt) content 8 (stat_Size - 8) in
                    if snd r1 = Some ErrEOF then Inl ErrSnapshotFormat
                    else
                      case snd r1 of
                        Some err \<Rightarrow> Inl err
                      | None \<Rightarrow>
                          let size = Uint64 (fst r1);
                              eod = sint ((word_of_int stat_Size :: u64) - (size + 8)) in
                          if unat size > maxAlloc then Inl ErrPanic
                          else
                            let r2 = ReadAt (df_ReadAt_trailer flt) content (unat size) eod in
                            case snd r2 of
                              Some err \<Rightarrow> Inl err
                            | None \<Rightarrow>
                                (case Unmarshal cd (fst r2) of
                                   Inl err \<Rightarrow> Inl err
                                 | Inr trailer \<Rightarrow>
                                     let lr = \<lparr>lr_R = content, lr_N = eod\<rparr> in
                                     case df_Copy flt of
                                       Some err \<Rightarrow> Inl err
                                     | None \<Rightarrow>
                                         if tr_CRC trailer \<noteq> crc_Sum (LimitedReader_ReadAll lr)
                                         then Inl ErrCRCMismatch
                                         else Inr \<lparr>h_Raw = tr_Snapshot trailer,
                                                   h_Members = tr_Members trailer,
                                                   h_Data = lr\<rparr>))))"


section \<open>Notions of the specification and example inputs\<close>

subsection \<open>Cluster facade\<close>

definition nonRemoved :: "Member \<Rightarrow> bool" where
  "nonRemoved m = (Type m \<noteq> RemovedMember)"

text \<open>The number of pool members, of any type, that report active.\<close>

definition active_count :: "cluster \<Rightarrow> nat" where
  "active_count c = length (filter IsActive (pool_Members c))"

text \<open>\<open>N\<close>, the number of non-removed members.\<close>

definition nonremoved_count :: "cluster \<Rightarrow> nat" where
  "nonremoved_count c = length (filter nonRemoved (pool_Members c))"

text \<open>The number of non-removed members that report active.\<close>

definition active_nonremoved_count :: "cluster \<Rightarrow> nat" where
  "active_nonremoved_count c = length (filter IsActive (filter nonRemoved (pool_Members c)))"

text \<open>The ceiling of \<open>n / 2\<close>.\<close>

definition ceil_half :: "nat \<Rightarrow> nat" where
  "ceil_half n = (n + 1) div 2"

text \<open>
  The members \<open>LongestActive\<close> chooses among, in the words of the specification:
  non-removed, non-local, with a non-zero \<open>ActiveSince\<close>.
\<close>

definition eligible :: "Member \<Rightarrow> bool" where
  "eligible m = (Type m \<noteq> RemovedMember \<and> Type m \<noteq> LocalMember \<and> ActiveSince m \<noteq> 0)"

text \<open>
  The precondition chain of \<open>RemoveMember\<close> as the specification lists it: joined,
  id-is-member, id-not-already-removed, id-is-not-leader, leader-known, forwarding-ok,
  quorum-available; each predicate with the error of its failure.
\<close>

definition is_removed :: "cluster \<Rightarrow> u64 \<Rightarrow> bool" where
  "is_removed c mid = (case GetMemebr c mid of None \<Rightarrow> False | Some m \<Rightarrow> Type m = RemovedMember)"

definition RemoveMember_chain :: "cluster \<Rightarrow> u64 \<Rightarrow> (bool \<times> error) list" where
  "RemoveMember_chain c mid =
     [(Whoami c \<noteq> 0, ErrNotJoined),
      (IsMember c mid, ErrUnknownMember mid),
      (\<not> is_removed c mid, ErrAlreadyRemoved mid),
      (mid \<noteq> Leader c, ErrRmLeader mid),
      (Leader c \<noteq> 0, ErrNoLeader),
      (Leader c = Whoami c \<or> \<not> disableForwarding c, ErrNotLeader),
      (IsAvailable c, ErrQuorumLost)]"

fun first_failing :: "(bool \<times> error) list \<Rightarrow> error option" where
  "first_failing [] = None"
| "first_failing ((ok, err) # ps) = (if ok then first_failing ps else Some err)"

definition mk :: "u64 \<Rightarrow> MemberType \<Rightarrow> bool \<Rightarrow> time \<Rightarrow> Member" where
  "mk i t a s = \<lparr>ID = i, Address = [], Type = t, IsActive = a, ActiveSince = s\<rparr>"

definition cluster_of :: "Member list \<Rightarrow> u64 \<Rightarrow> u64 \<Rightarrow> cluster" where
  "cluster_of ms me lead =
     \<lparr>pool_Members = ms, status_ID = me, status_Lead = lead,
      disableForwarding = False, proposed = []\<rparr>"

text \<open>Three voters, two of them active; node 1 is the leader.\<close>

definition c4_cluster :: cluster where
  "c4_cluster =
     cluster_of [mk 1 VoterMember True 10, mk 2 VoterMember True 20, mk 3 VoterMember False 0] 1 1"

text \<open>
  The local node and two remote voters; member 3 has been active since instant 100,
  member 2 only since instant 200, and the pool lists member 2 first.
\<close>

definition c5_cluster :: cluster where
  "c5_cluster =
     cluster_of [mk 1 LocalMember True 50, mk 2 VoterMember True 200, mk 3 VoterMember True 100] 1 1"

text \<open>Three active voters; this node is 1 and the leader is 2.\<close>

definition c9_cluster :: cluster where
  "c9_cluster =
     cluster_of [mk 1 VoterMember True 10, mk 2 VoterMember True 20, mk 3 VoterMember True 30] 1 2"

subsection \<open>Remote peer\<close>

text \<open>What a failed \<open>Send\<close> of \<open>msg\<close> must tell the consensus primitive.\<close>

definition failure_report :: "remote \<Rightarrow> Message \<Rightarrow> report_call" where
  "failure_report r msg =
     (if msg_Type msg = MsgSnap then ReportSnapshot (r_id r) SnapshotFailure
      else ReportUnreachable (r_id r))"

text \<open>A peer whose buffer of capacity 2 holds two messages, and a snapshot message.\<close>

definition c6_remote :: remote where
  "c6_remote =
     \<lparr>r_id = 7, ctx_Err = None,
      msgc = [\<lparr>msg_Type = MsgApp, msg_To = 7, msg_Index = 1\<rparr>,
              \<lparr>msg_Type = MsgHeartbeat, msg_To = 7, msg_Index = 0\<rparr>],
      msgc_cap = 2, reported = []\<rparr>"

definition c6_msg :: Message where
  "c6_msg = \<lparr>msg_Type = MsgSnap, msg_To = 7, msg_Index = 9\<rparr>"

subsection \<open>Daemon\<close>









text \<open>Collaborators that answer every call without an error.\<close>

definition c3_snap :: Snapshot where
  "c3_snap = \<lparr>snap_Data = [], snap_Index = 5, snap_Term = 1, snap_ConfState = [1]\<rparr>"

definition c3_env :: collaborators where
  "c3_env =
     \<lparr>cache_Snapshot = (c3_snap, None), fsm_Snapshot = Inr [1, 2, 3],
      cache_CreateSnapshot = (c3_snap, None), pool_Snapshot = [],
      snapshotter_Write = None,
      snapshotter_Read = Inr \<lparr>sf_Snap = c3_snap, sf_Pool = [], sf_Data = [1, 2, 3]\<rparr>,
      storage_SaveSnapshot = None, cache_Compact = None, cache_ApplySnapshot = None,
      fsm_Restore = None, SnapInterval = 1000\<rparr>"

text \<open>The two indices of a state: \<open>(snapIndex, appliedIndex)\<close>.\<close>

definition indices :: "daemon \<Rightarrow> u64 \<times> u64" where
  "indices d = (snapIndex d, appliedIndex d)"

text \<open>
  The state of a new daemon that publishes the snapshot \<open>c3_snap\<close> (index 5), after
  \<open>d.snapIndex.Set\<close> and before \<open>d.appliedIndex.Set\<close>.
\<close>

definition c3_window :: daemon where
  "c3_window =
     \<lparr>appliedIndex = 0, snapIndex = 5, cState = [1],
      calls = [Storage_SaveSnapshot c3_snap, Snapshotter_Read c3_snap,
               Cache_ApplySnapshot c3_snap, Pool_Restore [], FSM_Restore [1, 2, 3]]\<rparr>"

text \<open>
  The same collaborators, with a log cache that refuses to create a snapshot at an index
  it has already passed.
\<close>

definition c3_late_env :: collaborators where
  "c3_late_env = c3_env\<lparr>cache_CreateSnapshot := (empty_Snapshot, Some (ErrExternal 1))\<rparr>"

definition c10_daemon :: daemon where
  "c10_daemon = \<lparr>appliedIndex = 5, snapIndex = 5, cState = [1], calls = []\<rparr>"

subsection \<open>Snapshot files\<close>

text \<open>No call of the operating system fails during \<open>encodeSnapshot\<close>, or during \<open>decodeSnapshot\<close>.\<close>

definition encode_faultless :: "encode_faults \<Rightarrow> bool" where
  "encode_faultless flt =
     (ef_Create flt = None \<and> ef_Copy flt = None \<and> ef_WriteTrailer flt = None \<and>
      ef_WriteSize flt = None \<and> ef_Flush flt = None \<and> ef_Fsync flt = None)"

definition decode_faultless :: "decode_faults \<Rightarrow> bool" where
  "decode_faultless flt =
     (df_Open flt = None \<and> df_Stat flt = None \<and> df_ReadAt_size flt = None \<and>
      df_ReadAt_trailer flt = None \<and> df_Copy flt = None)"

text \<open>
  The canonical layout of a snapshot file:
  \<open>payload_bytes || trailer_bytes || uint64_be(len(trailer_bytes))\<close>.
\<close>

definition snapshot_layout :: "bytes \<Rightarrow> bytes \<Rightarrow> bytes" where
  "snapshot_layout payload trailer_bytes =
     payload @ trailer_bytes @ PutUint64 (of_nat (length trailer_bytes))"

text \<open>The trailer of a snapshot: the CRC of the payload, the version, the members, the raw metadata.\<close>

definition snapshot_trailer :: "storage_Snapshot \<Rightarrow> SnapshotTrailer" where
  "snapshot_trailer s =
     \<lparr>tr_CRC = crc_Sum (rd_bytes (ss_Data s)), tr_Version = V0,
      tr_Members = ss_Members s, tr_Snapshot = ss_Raw s\<rparr>"

text \<open>
  A snapshot at term 1 and index 2 with two members and a payload of three bytes; a
  codec that knows the trailer of that snapshot only; an empty file system.
\<close>

definition c1_snapshot :: storage_Snapshot where
  "c1_snapshot =
     \<lparr>ss_Raw = \<lparr>snap_Data = [], snap_Index = 2, snap_Term = 1, snap_ConfState = [1, 2, 3]\<rparr>,
      ss_Members = [\<lparr>raw_ID = 1, raw_Address = ''n1:7000'', raw_Type = VoterMember\<rparr>,
                    \<lparr>raw_ID = 2, raw_Address = ''n2:7000'', raw_Type = VoterMember\<rparr>],
      ss_Data = \<lparr>rd_bytes = [1, 2, 3], rd_err = None\<rparr>\<rparr>"

definition c1_codec :: codec where
  "c1_codec =
     \<lparr>Marshal = (\<lambda>t. if t = snapshot_trailer c1_snapshot then Inr [10, 20]
                      else Inl (ErrExternal 1)),
      Unmarshal = (\<lambda>b. if b = [10, 20] then Inr (snapshot_trailer c1_snapshot)
                        else Inl (ErrExternal 2))\<rparr>"

definition no_encode_faults :: encode_faults where
  "no_encode_faults =
     \<lparr>ef_Create = None, ef_Copy = None, ef_WriteTrailer = None, ef_WriteSize = None,
      ef_Flush = None, ef_Fsync = None, ef_persisted = 0\<rparr>"

definition no_decode_faults :: decode_faults where
  "no_decode_faults =
     \<lparr>df_Open = None, df_Stat = None, df_ReadAt_size = None, df_ReadAt_trailer = None,
      df_Copy = None\<rparr>"

definition c1_path :: string where
  "c1_path = ''0000000000000001-0000000000000002.snap''"

definition no_files :: fs where
  "no_files = (\<lambda>p. None)"

text \<open>
  A file in the canonical layout whose trailer decodes to a trailer with an empty CRC
  field.
\<close>

definition c2_codec :: codec where
  "c2_codec =
     \<lparr>Marshal = (\<lambda>t. Inl (ErrExternal 1)),
      Unmarshal = (\<lambda>b. if b = [10, 20] then Inr ((snapshot_trailer c1_snapshot)\<lparr>tr_CRC := []\<rparr>)
                        else Inl (ErrExternal 2))\<rparr>"

definition c2_files :: fs where
  "c2_files = no_files(c1_path := Some (snapshot_layout [1, 2, 3] [10, 20]))"

text \<open>
  The same snapshot with a payload reader that fails after three bytes; the bytes are
  still in the buffered writer, so none has reached the file, when \<open>io.Copy\<close> returns.
\<close>

definition c8_snapshot :: storage_Snapshot where
  "c8_snapshot = c1_snapshot\<lparr>ss_Data := \<lparr>rd_bytes = [1, 2, 3], rd_err = Some (ErrExternal 5)\<rparr>\<rparr>"

definition c8_faults :: encode_faults where
  "c8_faults = no_encode_faults\<lparr>ef_persisted := 0\<rparr>"

section \<open>Properties\<close>

subsection \<open>Cluster facade\<close>

lemma members_loop_filter: "members_loop cond ms mems = mems @ filter cond ms"
  by (induction ms arbitrary: mems) auto

lemma members_filter: "members c cond = filter cond (pool_Members c)"
  by (simp add: members_def members_loop_filter)

lemma Members_filter: "Members c = filter nonRemoved (pool_Members c)"
  unfolding Members_def members_filter nonRemoved_def by simp

lemma IsAvailable_counts:
  "IsAvailable c \<longleftrightarrow> nonremoved_count c div 2 + 1 \<le> active_count c"
  by (simp add: IsAvailable_def members_filter Members_filter active_count_def nonremoved_count_def)

lemma active_count_nonremoved:
  assumes "\<forall>m \<in> set (pool_Members c). Type m = RemovedMember \<longrightarrow> \<not> IsActive m"
  shows "active_count c = active_nonremoved_count c"
proof -
  have "filter IsActive (pool_Members c) = filter IsActive (filter nonRemoved (pool_Members c))"
    using assms by (auto simp: nonRemoved_def intro: filter_cong)
  then show ?thesis by (simp add: active_count_def active_nonremoved_count_def)
qed

text \<open>
  C4, as stated, fails: with three non-removed members of which two are active,
  \<open>IsAvailable\<close> is true although fewer than \<open>\<lceil>3/2\<rceil> + 1 = 3\<close> non-removed members are
  active.
\<close>

theorem IsAvailable_ceiling_counterexample:
  "IsAvailable c4_cluster \<and>
   \<not> (ceil_half (nonremoved_count c4_cluster) + 1 \<le> active_nonremoved_count c4_cluster)"
  by (simp add: IsAvailable_counts active_count_def nonremoved_count_def
      active_nonremoved_count_def ceil_half_def c4_cluster_def cluster_of_def mk_def
      nonRemoved_def)

text \<open>
  C4, amended: \<open>IsAvailable\<close> is true exactly when the number of pool members that report
  active is at least \<open>\<lfloor>N/2\<rfloor> + 1\<close>, where \<open>N\<close> is the number of non-removed members.
  The active members are counted over the whole pool listing; that count is the number
  of active non-removed members whenever no removed member reports active.
\<close>

theorem IsAvailable_floor_quorum:
  "(IsAvailable c \<longleftrightarrow> nonremoved_count c div 2 + 1 \<le> active_count c) \<and>
   ((\<forall>m \<in> set (pool_Members c). Type m = RemovedMember \<longrightarrow> \<not> IsActive m) \<longrightarrow>
      active_count c = active_nonremoved_count c)"
  using IsAvailable_counts active_count_nonremoved by blast

theorem IsAvailable_floor_quorum_witness:
  "filter IsActive (filter (Not \<circ> nonRemoved) (pool_Members c4_cluster)) = [] \<and>
   IsAvailable c4_cluster \<and>
   nonremoved_count c4_cluster div 2 + 1 \<le> active_count c4_cluster \<and>
   active_count c4_cluster = active_nonremoved_count c4_cluster \<and>
   active_count c4_cluster = 2"
proof -
  have h: "\<forall>m \<in> set (pool_Members c4_cluster). Type m = RemovedMember \<longrightarrow> \<not> IsActive m"
    by (simp add: c4_cluster_def cluster_of_def mk_def)
  have a: "nonremoved_count c4_cluster div 2 + 1 \<le> active_count c4_cluster"
    by (simp add: active_count_def nonremoved_count_def c4_cluster_def cluster_of_def mk_def
        nonRemoved_def)
  have n: "filter IsActive (filter (Not \<circ> nonRemoved) (pool_Members c4_cluster)) = []"
    by (simp add: c4_cluster_def cluster_of_def mk_def nonRemoved_def)
  have c: "active_count c4_cluster = 2"
    by (simp add: active_count_def c4_cluster_def cluster_of_def mk_def)
  show ?thesis
    using h a n c IsAvailable_floor_quorum [of c4_cluster] by blast
qed

text \<open>
  C5: on a pool that lists member 2 (active since 200) before member 3 (active since
  100), \<open>LongestActive\<close> returns member 2, although member 3 is eligible and has the
  earlier \<open>ActiveSince\<close>: the first eligible member is kept because \<open>longestTime\<close> is never
  set for it.
\<close>

theorem LongestActive_returns_first_eligible:
  "LongestActive c5_cluster = Inr (mk 2 VoterMember True 200) \<and>
   eligible (mk 3 VoterMember True 100) \<and>
   mk 3 VoterMember True 100 \<in> set (pool_Members c5_cluster) \<and>
   ActiveSince (mk 3 VoterMember True 100) < ActiveSince (mk 2 VoterMember True 200)"
  by (simp add: LongestActive_def Members_filter c5_cluster_def cluster_of_def mk_def
      nonRemoved_def eligible_def)

text \<open>When the pool has no eligible member, \<open>LongestActive\<close> returns its error.\<close>

lemma LongestActive_loop_none:
  "\<forall>m \<in> set ms. \<not> eligible m \<Longrightarrow> \<forall>m \<in> set ms. Type m \<noteq> RemovedMember \<Longrightarrow>
   LongestActive_loop ms None t = None"
  by (induction ms) (auto simp: eligible_def Let_def)

lemma LongestActive_no_candidate:
  assumes "\<forall>m \<in> set (pool_Members c). \<not> eligible m"
  shows "LongestActive c = Inl ErrNoLongestActive"
proof -
  have "LongestActive_loop (Members c) None 0 = None"
    using assms by (intro LongestActive_loop_none) (auto simp: Members_filter nonRemoved_def)
  then show ?thesis by (simp add: LongestActive_def)
qed

lemma precondition_chain:
  "precondition c (RemoveMember_checks mid) = first_failing (RemoveMember_chain c mid)"
  by (simp add: RemoveMember_checks_def RemoveMember_chain_def joined_def notMember_def
      memberRemoved_def rmLeader_def noLeader_def disableForwarding_check_def available_def
      IsMemberRemoved_def IsMember_def is_removed_def split: option.splits)

lemma RemoveMember_error:
  "first_failing (RemoveMember_chain c mid) = Some err \<Longrightarrow> RemoveMember c mid res = (Some err, c)"
  by (simp add: RemoveMember_def precondition_chain)

lemma RemoveMember_proposes:
  assumes "first_failing (RemoveMember_chain c mid) = None"
  shows "\<exists>mem. GetMemebr c mid = Some mem \<and>
     RemoveMember c mid res =
       (res, c\<lparr>proposed := proposed c @ [((Raw mem)\<lparr>raw_Type := RemovedMember\<rparr>, ConfChangeRemoveNode)]\<rparr>)"
proof -
  from assms have "IsMember c mid"
    by (simp add: RemoveMember_chain_def split: if_splits)
  then obtain mem where "GetMemebr c mid = Some mem"
    by (auto simp: IsMember_def)
  with assms show ?thesis
    by (simp add: RemoveMember_def precondition_chain daemon_ProposeConfChange_def)
qed

lemma RemoveMember_leader:
  assumes "mid = Leader c" "Whoami c \<noteq> 0" "IsMember c mid" "\<not> is_removed c mid"
  shows "RemoveMember c mid res = (Some (ErrRmLeader mid), c)"
  using assms by (intro RemoveMember_error) (simp add: RemoveMember_chain_def)

text \<open>
  C9: \<open>RemoveMember\<close> evaluates the chain joined, id-is-member, id-not-already-removed,
  id-is-not-leader, leader-known, forwarding-ok, quorum-available in this order. When a
  predicate fails, the error of the first failing one is returned and the facade is left
  as it was: nothing is proposed. When all hold, exactly one \<open>RemoveNode\<close> change is
  handed to the daemon. In particular, for the current leader's id the call never
  proposes, and it returns the cannot-remove-leader error once the three earlier
  predicates hold.
\<close>

theorem RemoveMember_precondition_chain:
  "(\<forall>err. first_failing (RemoveMember_chain c mid) = Some err \<longrightarrow>
      RemoveMember c mid res = (Some err, c)) \<and>
   (first_failing (RemoveMember_chain c mid) = None \<longrightarrow>
      (\<exists>mem. GetMemebr c mid = Some mem \<and>
         RemoveMember c mid res =
           (res, c\<lparr>proposed := proposed c @
                   [((Raw mem)\<lparr>raw_Type := RemovedMember\<rparr>, ConfChangeRemoveNode)]\<rparr>))) \<and>
   (mid = Leader c \<and> Whoami c \<noteq> 0 \<and> IsMember c mid \<and> \<not> is_removed c mid \<longrightarrow>
      RemoveMember c mid res = (Some (ErrRmLeader mid), c)) \<and>
   (mid = Leader c \<longrightarrow> (\<exists>err. RemoveMember c mid res = (Some err, c)))"
proof -
  have "\<exists>err. RemoveMember c mid res = (Some err, c)" if "mid = Leader c"
  proof -
    from that have "first_failing (RemoveMember_chain c mid) \<noteq> None"
      by (simp add: RemoveMember_chain_def)
    then show ?thesis using RemoveMember_error by blast
  qed
  then show ?thesis
    using RemoveMember_error RemoveMember_proposes RemoveMember_leader by blast
qed

theorem RemoveMember_precondition_chain_witness:
  "first_failing (RemoveMember_chain c9_cluster 2) = Some (ErrRmLeader 2) \<and>
   RemoveMember c9_cluster 2 None = (Some (ErrRmLeader 2), c9_cluster) \<and>
   first_failing (RemoveMember_chain c9_cluster 3) = None \<and>
   RemoveMember c9_cluster 3 None =
     (None, c9_cluster\<lparr>proposed :=
        [(\<lparr>raw_ID = 3, raw_Address = [], raw_Type = RemovedMember\<rparr>, ConfChangeRemoveNode)]\<rparr>)"
proof -
  have av: "IsAvailable c9_cluster"
    by (simp add: IsAvailable_counts active_count_def nonremoved_count_def c9_cluster_def
        cluster_of_def mk_def nonRemoved_def)
  have f2: "first_failing (RemoveMember_chain c9_cluster 2) = Some (ErrRmLeader 2)"
    by (simp add: RemoveMember_chain_def av Whoami_def Leader_def IsMember_def is_removed_def
        GetMemebr_def c9_cluster_def cluster_of_def mk_def)
  have f3: "first_failing (RemoveMember_chain c9_cluster 3) = None"
    using av by (simp add: RemoveMember_chain_def Whoami_def Leader_def IsMember_def is_removed_def
        GetMemebr_def c9_cluster_def cluster_of_def mk_def)
  have g3: "GetMemebr c9_cluster 3 = Some (mk 3 VoterMember True 30)"
    by (simp add: GetMemebr_def c9_cluster_def cluster_of_def mk_def)
  have p: "proposed c9_cluster = []"
    by (simp add: c9_cluster_def cluster_of_def)
  from RemoveMember_precondition_chain [of c9_cluster 2 None] f2
  have r2: "RemoveMember c9_cluster 2 None = (Some (ErrRmLeader 2), c9_cluster)" by blast
  from RemoveMember_precondition_chain [of c9_cluster 3 None] f3 g3
  have r3: "RemoveMember c9_cluster 3 None =
     (None, c9_cluster\<lparr>proposed := proposed c9_cluster @
        [((Raw (mk 3 VoterMember True 30))\<lparr>raw_Type := RemovedMember\<rparr>, ConfChangeRemoveNode)]\<rparr>)"
    by auto
  show ?thesis using f2 f3 r2 r3 p by (simp add: Raw_def mk_def)
qed


subsection \<open>Remote peer\<close>

lemma Send_ready_full: "msgc_cap r \<le> length (msgc r) \<Longrightarrow> ctx_Err r = None \<Longrightarrow> Send_ready r = []"
  by (simp add: Send_ready_def)

lemma Send_body_never_blocks: "Send_body pick r msg \<noteq> None"
  by (auto simp: Send_body_def select_stmt_def split: option.splits select_case.splits)

lemma Send_body_frame: "Send_body pick r msg = Some (err, r') \<Longrightarrow> reported r' = reported r \<and> r_id r' = r_id r"
  by (auto simp: Send_body_def select_stmt_def split: option.splits select_case.splits if_splits)

lemma report_failure:
  "report r msg (Some e) = r\<lparr>reported := reported r @ [failure_report r msg]\<rparr>"
  by (simp add: report_def failure_report_def)

text \<open>
  C6: when the buffer is full and the context is not cancelled, \<open>Send\<close> returns the
  overloaded error, leaves the buffer as it was and reports the failure; \<open>Send\<close> never
  blocks; and every \<open>Send\<close> that returns an error has made exactly one report:
  \<open>ReportSnapshot\<close> with \<open>SnapshotFailure\<close> for \<open>MsgSnap\<close>, \<open>ReportUnreachable\<close> for any
  other message.
\<close>

theorem Send_failure_reports:
  "(msgc_cap r \<le> length (msgc r) \<and> ctx_Err r = None \<longrightarrow>
      Send pick r msg =
        Some (Some (ErrOverloaded (r_id r)),
              r\<lparr>reported := reported r @ [failure_report r msg]\<rparr>)) \<and>
   Send pick r msg \<noteq> None \<and>
   (\<forall>e r'. Send pick r msg = Some (Some e, r') \<longrightarrow>
      reported r' = reported r @ [failure_report r msg])"
proof (intro conjI allI impI)
  assume a: "msgc_cap r \<le> length (msgc r) \<and> ctx_Err r = None"
  then have "Send_body pick r msg = Some (Some (ErrOverloaded (r_id r)), r)"
    by (simp add: Send_body_def select_stmt_def Send_ready_full)
  then show "Send pick r msg =
        Some (Some (ErrOverloaded (r_id r)),
              r\<lparr>reported := reported r @ [failure_report r msg]\<rparr>)"
    by (simp add: Send_def report_failure)
next
  show "Send pick r msg \<noteq> None"
    using Send_body_never_blocks [of pick r msg]
    by (auto simp: Send_def split: option.splits prod.splits)
next
  fix e r'
  assume s: "Send pick r msg = Some (Some e, r')"
  then obtain r0 where b: "Send_body pick r msg = Some (Some e, r0)" and r': "r' = report r0 msg (Some e)"
    by (auto simp: Send_def split: option.splits prod.splits if_splits)
  from Send_body_frame [OF b] have "reported r0 = reported r" "r_id r0 = r_id r" by auto
  then show "reported r' = reported r @ [failure_report r msg]"
    by (simp add: r' report_failure failure_report_def)
qed

theorem Send_failure_reports_witness:
  "msgc_cap c6_remote \<le> length (msgc c6_remote) \<and> ctx_Err c6_remote = None \<and>
   Send 0 c6_remote c6_msg =
     Some (Some (ErrOverloaded 7), c6_remote\<lparr>reported := [ReportSnapshot 7 SnapshotFailure]\<rparr>)"
proof -
  have h: "msgc_cap c6_remote \<le> length (msgc c6_remote) \<and> ctx_Err c6_remote = None"
    by (simp add: c6_remote_def)
  have o: "failure_report c6_remote c6_msg = ReportSnapshot 7 SnapshotFailure"
    by (simp add: failure_report_def c6_remote_def c6_msg_def)
  have i: "r_id c6_remote = 7" "reported c6_remote = []"
    by (simp_all add: c6_remote_def)
  from Send_failure_reports [where r = c6_remote and msg = c6_msg and pick = 0] h
  have "Send 0 c6_remote c6_msg =
        Some (Some (ErrOverloaded (r_id c6_remote)),
              c6_remote\<lparr>reported := reported c6_remote @ [failure_report c6_remote c6_msg]\<rparr>)"
    by blast
  then show ?thesis using h o i by simp
qed

subsection \<open>Daemon\<close>

lemma appliedIndex_called [simp]: "appliedIndex (called d c) = appliedIndex d"
  and snapIndex_called [simp]: "snapIndex (called d c) = snapIndex d"
  and cState_called [simp]: "cState (called d c) = cState d"
  and calls_called [simp]: "calls (called d c) = calls d @ [c]"
  by (simp_all add: called_def)

text \<open>
  From call to return, \<open>CreateSnapshot\<close>, \<open>publishSnapshotFile\<close> and \<open>publishSnapshot\<close>
  keep \<open>snapIndex \<le> appliedIndex\<close>, whatever the collaborators answer.
\<close>

lemma CreateSnapshot_indices:
  "appliedIndex (snd (CreateSnapshot env d)) = appliedIndex d \<and>
   (snapIndex (snd (CreateSnapshot env d)) = snapIndex d \<or>
    snapIndex (snd (CreateSnapshot env d)) = appliedIndex d)"
  by (simp add: CreateSnapshot_def Let_def split: sum.splits option.splits)

lemma publishSnapshotFile_indices:
  "(fst (publishSnapshotFile env sf d) = None \<longrightarrow>
      snapIndex (snd (publishSnapshotFile env sf d)) = snap_Index (sf_Snap sf) \<and>
      appliedIndex (snd (publishSnapshotFile env sf d)) = snap_Index (sf_Snap sf)) \<and>
   (fst (publishSnapshotFile env sf d) \<noteq> None \<longrightarrow>
      snapIndex (snd (publishSnapshotFile env sf d)) = snapIndex d \<and>
      appliedIndex (snd (publishSnapshotFile env sf d)) = appliedIndex d)"
  by (simp add: publishSnapshotFile_def Let_def split: option.splits)

lemma CreateSnapshot_preserves:
  "snapIndex d \<le> appliedIndex d \<Longrightarrow>
   snapIndex (snd (CreateSnapshot env d)) \<le> appliedIndex (snd (CreateSnapshot env d))"
  using CreateSnapshot_indices [of env d] by auto

lemma publishSnapshotFile_preserves:
  "snapIndex d \<le> appliedIndex d \<Longrightarrow>
   snapIndex (snd (publishSnapshotFile env sf d)) \<le> appliedIndex (snd (publishSnapshotFile env sf d))"
  using publishSnapshotFile_indices [of env sf d] by (cases "fst (publishSnapshotFile env sf d)") auto

lemma publishSnapshot_preserves:
  "snapIndex d \<le> appliedIndex d \<Longrightarrow>
   snapIndex (snd (publishSnapshot env snap d)) \<le> appliedIndex (snd (publishSnapshot env snap d))"
  using publishSnapshotFile_preserves [of "called (called d (Storage_SaveSnapshot snap)) (Snapshotter_Read snap)" env]
  by (simp add: publishSnapshot_def Let_def split: option.splits sum.splits)

text \<open>
  The state at return of \<open>publishSnapshotFile\<close> and of \<open>publishSnapshot\<close> is the last of
  the states they pass through.
\<close>

lemma publishSnapshotFile_last_state:
  "publishSnapshotFile env sf d =
     (fst (publishSnapshotFile_states env sf d), last (snd (publishSnapshotFile_states env sf d)))"
  by (simp add: publishSnapshotFile_def publishSnapshotFile_states_def Let_def
      split: option.splits)

lemma publishSnapshot_last_state:
  "publishSnapshot env snap d =
     (fst (publishSnapshot_states env snap d), last (d # snd (publishSnapshot_states env snap d)))"
  by (simp add: publishSnapshot_def publishSnapshot_states_def publishSnapshotFile_def
      publishSnapshotFile_states_def Let_def split: option.splits sum.splits)

text \<open>
  Whenever \<open>publishSnapshotFile\<close> succeeds with a snapshot beyond the applied index, which
  is the only kind \<open>publishSnapshot\<close> lets through, it passes through a state with
  \<open>snapIndex\<close> above \<open>appliedIndex\<close>: \<open>snapIndex\<close> is stored first.
\<close>

lemma publishSnapshotFile_window:
  assumes "fst (publishSnapshotFile_states env sf d) = None"
    and "appliedIndex d < snap_Index (sf_Snap sf)"
  shows "\<exists>w \<in> set (snd (publishSnapshotFile_states env sf d)).
           snapIndex w = snap_Index (sf_Snap sf) \<and> appliedIndex w = appliedIndex d \<and>
           appliedIndex w < snapIndex w"
  using assms
  by (auto simp: publishSnapshotFile_states_def Let_def split: option.splits)

lemma publishSnapshot_window:
  assumes "fst (publishSnapshot_states env snap d) = None" and "\<not> IsEmptySnap snap"
    and "snapshotter_Read env = Inr sf" and "snap_Index (sf_Snap sf) = snap_Index snap"
  shows "\<exists>w \<in> set (snd (publishSnapshot_states env snap d)).
           snapIndex w = snap_Index snap \<and> appliedIndex w = appliedIndex d \<and>
           appliedIndex w < snapIndex w"
proof -
  let ?d2 = "called (called d (Storage_SaveSnapshot snap)) (Snapshotter_Read snap)"
  from assms have gt: "appliedIndex d < snap_Index snap"
    by (auto simp: publishSnapshot_states_def split: if_splits)
  from assms have ok: "fst (publishSnapshotFile_states env sf ?d2) = None"
    by (auto simp: publishSnapshot_states_def Let_def split: if_splits option.splits)
  from publishSnapshotFile_window [OF ok] gt assms(4)
  obtain w where w: "w \<in> set (snd (publishSnapshotFile_states env sf ?d2))"
    "snapIndex w = snap_Index snap" "appliedIndex w = appliedIndex d" "appliedIndex w < snapIndex w"
    by auto
  from assms gt have "snd (publishSnapshot_states env snap d) =
      called d (Storage_SaveSnapshot snap) # ?d2 # snd (publishSnapshotFile_states env sf ?d2)"
    by (auto simp: publishSnapshot_states_def Let_def split: if_splits option.splits)
  with w show ?thesis by auto
qed

text \<open>
  C3: a new daemon that publishes a snapshot at index 5 passes, between the store of
  \<open>snapIndex\<close> and the store of \<open>appliedIndex\<close>, through a state with \<open>snapIndex = 5\<close> and
  \<open>appliedIndex = 0\<close>, where \<open>snapIndex \<le> appliedIndex\<close> fails. An iteration of the snapshot
  task that runs at that state finds \<open>appliedIndex - snapIndex\<close> above \<open>SnapInterval\<close> (the
  unsigned difference wraps around) and calls \<open>CreateSnapshot\<close>, which takes a snapshot of
  the state machine at index 0 that the log cache then refuses.
\<close>

theorem publishSnapshot_snapIndex_above_appliedIndex:
  "fst (publishSnapshot_states c3_env c3_snap New) = None \<and>
   map indices (snd (publishSnapshot_states c3_env c3_snap New)) =
     [(0, 0), (0, 0), (0, 0), (0, 0), (0, 0), (0, 0), (5, 0), (5, 5)] \<and>
   snd (publishSnapshot_states c3_env c3_snap New) ! 6 = c3_window \<and>
   appliedIndex c3_window < snapIndex c3_window \<and>
   \<not> appliedIndex c3_window - snapIndex c3_window \<le> SnapInterval c3_late_env \<and>
   snapshots_iteration c3_late_env c3_window =
     c3_window\<lparr>calls := calls c3_window @ [FSM_Snapshot, Cache_CreateSnapshot 0 [1]]\<rparr>"
proof -
  have st: "publishSnapshot_states c3_env c3_snap New =
     (None,
      [called New (Storage_SaveSnapshot c3_snap),
       called (called New (Storage_SaveSnapshot c3_snap)) (Snapshotter_Read c3_snap),
       c3_window\<lparr>snapIndex := 0, cState := [], calls := butlast (butlast (calls c3_window))\<rparr>,
       c3_window\<lparr>snapIndex := 0, cState := [], calls := butlast (calls c3_window)\<rparr>,
       c3_window\<lparr>snapIndex := 0, cState := []\<rparr>,
       c3_window\<lparr>snapIndex := 0\<rparr>,
       c3_window,
       c3_window\<lparr>appliedIndex := 5\<rparr>])"
    by (simp add: publishSnapshot_states_def publishSnapshotFile_states_def IsEmptySnap_def
        c3_env_def c3_snap_def New_def called_def c3_window_def Let_def)
  have w: "appliedIndex c3_window < snapIndex c3_window"
    by (simp add: c3_window_def)
  have t: "\<not> appliedIndex c3_window - snapIndex c3_window \<le> SnapInterval c3_late_env"
    by (simp add: c3_window_def c3_late_env_def c3_env_def)
  have i: "snapshots_iteration c3_late_env c3_window =
     c3_window\<lparr>calls := calls c3_window @ [FSM_Snapshot, Cache_CreateSnapshot 0 [1]]\<rparr>"
    using t
    by (simp add: snapshots_iteration_def CreateSnapshot_def called_def Let_def)
       (simp add: c3_window_def c3_late_env_def c3_env_def)
  have a: "fst (publishSnapshot_states c3_env c3_snap New) = None"
    by (simp add: st)
  have b: "map indices (snd (publishSnapshot_states c3_env c3_snap New)) =
     [(0, 0), (0, 0), (0, 0), (0, 0), (0, 0), (0, 0), (5, 0), (5, 5)]"
    unfolding st by (simp add: indices_def called_def New_def c3_window_def)
  have c: "snd (publishSnapshot_states c3_env c3_snap New) ! 6 = c3_window"
    by (simp add: st)
  show ?thesis
    using a b c w t i by blast
qed

text \<open>
  C10: when \<open>appliedIndex\<close> equals \<open>snapIndex\<close> at the start, \<open>CreateSnapshot\<close> returns what
  \<open>d.cache.Snapshot()\<close> returns; that read is the only call it makes (no \<open>FSM.Snapshot\<close>,
  no snapshot file written, no compaction), and both indices and the conf state are
  left as they were.
\<close>

theorem CreateSnapshot_up_to_date:
  assumes "appliedIndex d = snapIndex d"
  shows "fst (CreateSnapshot env d) = cache_Snapshot env \<and>
         calls (snd (CreateSnapshot env d)) = calls d @ [Cache_Snapshot] \<and>
         appliedIndex (snd (CreateSnapshot env d)) = appliedIndex d \<and>
         snapIndex (snd (CreateSnapshot env d)) = snapIndex d \<and>
         cState (snd (CreateSnapshot env d)) = cState d"
  using assms by (simp add: CreateSnapshot_def)

theorem CreateSnapshot_up_to_date_witness:
  "appliedIndex c10_daemon = snapIndex c10_daemon \<and>
   fst (CreateSnapshot c3_env c10_daemon) = (c3_snap, None) \<and>
   calls (snd (CreateSnapshot c3_env c10_daemon)) = [Cache_Snapshot] \<and>
   appliedIndex (snd (CreateSnapshot c3_env c10_daemon)) = 5 \<and>
   snapIndex (snd (CreateSnapshot c3_env c10_daemon)) = 5"
proof -
  have h: "appliedIndex c10_daemon = snapIndex c10_daemon"
    by (simp add: c10_daemon_def)
  show ?thesis
    using h CreateSnapshot_up_to_date [OF h, of c3_env]
    by (simp add: c10_daemon_def c3_env_def)
qed






subsection \<open>Snapshot files\<close>

text \<open>
  Feeding a hash piece by piece, as \<open>io.Copy\<close> does, is feeding it the whole input.
\<close>

lemma crc_bytes_append: "crc_bytes crc (p @ q) = crc_bytes (crc_bytes crc p) q"
  by (induction p arbitrary: crc) simp_all

lemma crc64_Update_append: "crc64_Update (crc64_Update crc p) q = crc64_Update crc (p @ q)"
  by (simp add: crc64_Update_def crc_bytes_append)

lemma byte_step: "push_bit 8 (drop_bit 8 w) OR ucast (ucast w :: byte) = (w :: u64)"
  by (rule bit_word_eqI) (auto simp: bit_simps)

lemma byte_top: "ucast (ucast (drop_bit 56 v) :: byte) = (drop_bit 56 v :: u64)"
  by (rule bit_word_eqI) (auto simp: bit_simps dest: bit_imp_le_length)

lemma Uint64_PutUint64: "Uint64 (PutUint64 v) = v"
proof -
  have s: "\<And>k. push_bit 8 (drop_bit (k + 8) v) OR ucast (ucast (drop_bit k v) :: byte) = drop_bit k v"
    using byte_step [of "drop_bit _ v"] by (simp add: add.commute)
  show ?thesis
    unfolding Uint64_def PutUint64_def
    using s [of 0] s [of 8] s [of 16] s [of 24] s [of 32] s [of 40] s [of 48] byte_top [of v]
    by simp
qed

lemma length_PutUint64: "length (PutUint64 v) = 8"
  by (simp add: PutUint64_def)

lemma length_crc_Sum: "length (crc_Sum p) = 8"
  by (simp add: crc_Sum_def length_PutUint64)

lemma sint_small: "n < 2 ^ 63 \<Longrightarrow> sint (of_nat n :: u64) = int n"
proof -
  assume n: "n < 2 ^ 63"
  have "sint (of_nat n :: u64) = signed_take_bit 63 (int n)"
    using sint_sbintrunc' [of "int n", where ?'a = 64] by simp
  also have "\<dots> = int n"
    by (rule signed_take_bit_int_eq_self) (use n in simp_all)
  finally show ?thesis .
qed

lemma unat_small: "n \<le> maxAlloc \<Longrightarrow> unat (of_nat n :: u64) = n"
  by (simp add: unat_of_nat maxAlloc_def)

lemma encodeSnapshot_ok:
  assumes "encode_faultless ef" "rd_err (ss_Data s) = None"
    and "Marshal cd (snapshot_trailer s) = Inr buf"
  shows "encodeSnapshot cd ef path s fs =
           (None, fs(path := Some (snapshot_layout (rd_bytes (ss_Data s)) buf)))"
  using assms
  by (simp add: encodeSnapshot_def encode_faultless_def snapshot_trailer_def snapshot_layout_def
      Let_def)

lemma decodeSnapshot_layout:
  assumes fs: "fs path = Some (snapshot_layout payload tbuf)"
    and df: "decode_faultless df"
    and lt: "length tbuf \<le> maxAlloc"
    and lp: "length payload < 2 ^ 63"
  shows "decodeSnapshot cd df path fs =
     (case Unmarshal cd tbuf of
        Inl err \<Rightarrow> Inl err
      | Inr trailer \<Rightarrow>
          if tr_CRC trailer \<noteq> crc_Sum payload then Inl ErrCRCMismatch
          else Inr \<lparr>h_Raw = tr_Snapshot trailer, h_Members = tr_Members trailer,
                    h_Data = \<lparr>lr_R = snapshot_layout payload tbuf,
                              lr_N = int (length payload)\<rparr>\<rparr>)"
proof -
  let ?content = "snapshot_layout payload tbuf"
  let ?bsize = "PutUint64 (of_nat (length tbuf))"
  have len: "length ?content = length payload + length tbuf + 8"
    by (simp add: snapshot_layout_def length_PutUint64)
  have r1: "ReadAt None ?content 8 (int (length ?content) - 8) = (?bsize, None)"
    by (simp add: ReadAt_def len Let_def) (simp add: snapshot_layout_def length_PutUint64)
  have size: "Uint64 ?bsize = of_nat (length tbuf)"
    by (rule Uint64_PutUint64)
  have usize: "unat (of_nat (length tbuf) :: u64) = length tbuf"
    using lt by (rule unat_small)
  have eod: "sint ((of_nat (length ?content) :: u64) - (of_nat (length tbuf) + 8))
               = int (length payload)"
    using sint_small [OF lp] by (simp add: len)
  have r2: "ReadAt None ?content (length tbuf) (int (length payload)) = (tbuf, None)"
    by (simp add: ReadAt_def Let_def snapshot_layout_def)
  have ra: "LimitedReader_ReadAll \<lparr>lr_R = ?content, lr_N = int (length payload)\<rparr> = payload"
    by (simp add: LimitedReader_ReadAll_def snapshot_layout_def)
  show ?thesis
    using df lt
    by (simp add: decodeSnapshot_def fs decode_faultless_def r1 size usize eod r2 ra Let_def
        split: sum.splits)
qed

text \<open>
  C1: when no call of the operating system fails, the payload reader ends with
  \<open>io.EOF\<close> and the codec decodes the trailer it encoded, \<open>encodeSnapshot\<close> writes the
  canonical layout and \<open>decodeSnapshot\<close> of the same path succeeds with the raw metadata
  and the member list of the snapshot and a reader that yields exactly the payload and
  stops at the trailer. (The trailer fits an allocation and the payload a file offset.)
\<close>

theorem encode_decode_roundtrip:
  assumes "encode_faultless ef" and "decode_faultless df"
    and "rd_err (ss_Data s) = None"
    and "Marshal cd (snapshot_trailer s) = Inr buf"
    and "Unmarshal cd buf = Inr (snapshot_trailer s)"
    and "length buf \<le> maxAlloc"
    and "length (rd_bytes (ss_Data s)) < 2 ^ 63"
  shows "\<exists>fs' h.
           encodeSnapshot cd ef path s fs = (None, fs') \<and>
           fs' path = Some (snapshot_layout (rd_bytes (ss_Data s)) buf) \<and>
           decodeSnapshot cd df path fs' = Inr h \<and>
           h_Raw h = ss_Raw s \<and>
           h_Members h = ss_Members s \<and>
           LimitedReader_ReadAll (h_Data h) = rd_bytes (ss_Data s)"
proof -
  let ?payload = "rd_bytes (ss_Data s)"
  let ?fs' = "fs(path := Some (snapshot_layout ?payload buf))"
  have e: "encodeSnapshot cd ef path s fs = (None, ?fs')"
    using assms(1,3,4) by (rule encodeSnapshot_ok)
  have f: "?fs' path = Some (snapshot_layout ?payload buf)" by simp
  have d: "decodeSnapshot cd df path ?fs' =
      Inr \<lparr>h_Raw = ss_Raw s, h_Members = ss_Members s,
           h_Data = \<lparr>lr_R = snapshot_layout ?payload buf, lr_N = int (length ?payload)\<rparr>\<rparr>"
    using decodeSnapshot_layout [where fs = ?fs' and path = path and cd = cd, OF f assms(2,6,7)]
      assms(5)
    by (simp add: snapshot_trailer_def)
  have r: "LimitedReader_ReadAll \<lparr>lr_R = snapshot_layout ?payload buf,
        lr_N = int (length ?payload)\<rparr> = ?payload"
    by (simp add: LimitedReader_ReadAll_def snapshot_layout_def)
  show ?thesis using e f d r by auto
qed

theorem encode_decode_roundtrip_witness:
  "encode_faultless no_encode_faults \<and> decode_faultless no_decode_faults \<and>
   Marshal c1_codec (snapshot_trailer c1_snapshot) = Inr [10, 20] \<and>
   Unmarshal c1_codec [10, 20] = Inr (snapshot_trailer c1_snapshot) \<and>
   (\<exists>fs' h.
      encodeSnapshot c1_codec no_encode_faults c1_path c1_snapshot no_files = (None, fs') \<and>
      fs' c1_path = Some (snapshot_layout [1, 2, 3] [10, 20]) \<and>
      decodeSnapshot c1_codec no_decode_faults c1_path fs' = Inr h \<and>
      h_Raw h = ss_Raw c1_snapshot \<and>
      h_Members h = ss_Members c1_snapshot \<and>
      LimitedReader_ReadAll (h_Data h) = [1, 2, 3])"
proof -
  have a1: "encode_faultless no_encode_faults"
    by (simp add: encode_faultless_def no_encode_faults_def)
  have a2: "decode_faultless no_decode_faults"
    by (simp add: decode_faultless_def no_decode_faults_def)
  have a3: "rd_err (ss_Data c1_snapshot) = None"
    by (simp add: c1_snapshot_def)
  have a4: "Marshal c1_codec (snapshot_trailer c1_snapshot) = Inr [10, 20]"
    by (simp add: c1_codec_def)
  have a5: "Unmarshal c1_codec [10, 20] = Inr (snapshot_trailer c1_snapshot)"
    by (simp add: c1_codec_def)
  have a6: "length [10, 20 :: byte] \<le> maxAlloc"
    by (simp add: maxAlloc_def)
  have a7: "length (rd_bytes (ss_Data c1_snapshot)) < 2 ^ 63"
    by (simp add: c1_snapshot_def)
  have p: "rd_bytes (ss_Data c1_snapshot) = [1, 2, 3]"
    by (simp add: c1_snapshot_def)
  show ?thesis
    using a1 a2 a4 a5
      encode_decode_roundtrip [OF a1 a2 a3 a4 a5 a6 a7, of c1_path no_files]
    by (simp add: p)
qed

text \<open>
  C2: for a file in the canonical layout whose trailer records a CRC other than the
  CRC64 (ECMA) of the payload, \<open>decodeSnapshot\<close> returns \<open>ErrCRCMismatch\<close> and no
  handle.
\<close>

theorem decodeSnapshot_crc_mismatch:
  assumes "fs path = Some (snapshot_layout payload tbuf)"
    and "decode_faultless df"
    and "length tbuf \<le> maxAlloc"
    and "length payload < 2 ^ 63"
    and "Unmarshal cd tbuf = Inr trailer"
    and "tr_CRC trailer \<noteq> crc_Sum payload"
  shows "decodeSnapshot cd df path fs = Inl ErrCRCMismatch"
  using decodeSnapshot_layout [where fs = fs and path = path and cd = cd, OF assms(1-4)]
    assms(5,6)
  by simp

theorem decodeSnapshot_crc_mismatch_witness:
  "c2_files c1_path = Some (snapshot_layout [1, 2, 3] [10, 20]) \<and>
   decode_faultless no_decode_faults \<and>
   Unmarshal c2_codec [10, 20] = Inr ((snapshot_trailer c1_snapshot)\<lparr>tr_CRC := []\<rparr>) \<and>
   [] \<noteq> crc_Sum [1, 2, 3] \<and>
   decodeSnapshot c2_codec no_decode_faults c1_path c2_files = Inl ErrCRCMismatch"
proof -
  have a1: "c2_files c1_path = Some (snapshot_layout [1, 2, 3] [10, 20])"
    by (simp add: c2_files_def)
  have a2: "decode_faultless no_decode_faults"
    by (simp add: decode_faultless_def no_decode_faults_def)
  have a3: "length [10, 20 :: byte] \<le> maxAlloc"
    by (simp add: maxAlloc_def)
  have a4: "length [1, 2, 3 :: byte] < 2 ^ 63"
    by simp
  have a5: "Unmarshal c2_codec [10, 20] = Inr ((snapshot_trailer c1_snapshot)\<lparr>tr_CRC := []\<rparr>)"
    by (simp add: c2_codec_def)
  have a6: "tr_CRC ((snapshot_trailer c1_snapshot)\<lparr>tr_CRC := []\<rparr>) \<noteq> crc_Sum [1, 2, 3]"
    using length_crc_Sum [of "[1, 2, 3]"] by auto
  have a7: "[] \<noteq> crc_Sum [1, 2, 3]"
    using length_crc_Sum [of "[1, 2, 3]"] by auto
  show ?thesis
    using a1 a2 a5 a7
      decodeSnapshot_crc_mismatch [where fs = c2_files and path = c1_path, OF a1 a2 a3 a4 a5 a6]
    by simp
qed

text \<open>
  Whatever fails once the file has been created, the file is at its path when
  \<open>encodeSnapshot\<close> returns the error.
\<close>

lemma encodeSnapshot_error_leaves_file:
  assumes "ef_Create flt = None" and "fst (encodeSnapshot cd flt path s fs) = Some err"
  shows "snd (encodeSnapshot cd flt path s fs) path \<noteq> None"
  using assms
  by (auto simp: encodeSnapshot_def Let_def split: option.splits sum.splits)

text \<open>
  C8: when the payload reader fails after the file has been created, \<open>encodeSnapshot\<close>
  returns the error and the file it created is still at its path (empty: nothing was
  flushed).
\<close>

theorem encodeSnapshot_leaves_partial_file:
  "encodeSnapshot c1_codec c8_faults c1_path c8_snapshot no_files =
     (Some (ErrExternal 5), no_files(c1_path := Some []))"
  by (simp add: encodeSnapshot_def c8_faults_def no_encode_faults_def c8_snapshot_def
      c1_snapshot_def Let_def)

end
